theory Spec2Isabelle
  imports Main
begin

section \<open>Python values and exceptions\<close>

text \<open>
  The program is \<^verbatim>\<open>src/iamtune/aws.py\<close>: a client \<^verbatim>\<open>AwsClient\<close> that wraps the
  operations of a remote IAM service, and a reader \<^verbatim>\<open>IamReader\<close> that assembles the
  profile of a role from them.

  The responses of the remote service are JSON-like Python values: dictionaries with string
  keys (kept as association lists in insertion order, keys distinct), lists, strings,
  integers, \<^verbatim>\<open>datetime\<close> objects (the service's \<^verbatim>\<open>CreateDate\<close> fields; kept as a
  timestamp) and \<^verbatim>\<open>None\<close>.
\<close>

datatype pyval =
    PNone
  | PInt int
  | PStr string
  | PDate int
  | PList "pyval list"
  | PDict "(string \<times> pyval) list"

text \<open>
  Exceptions are values. \<open>ClientError code\<close> is botocore's \<^verbatim>\<open>ClientError\<close> whose
  \<^verbatim>\<open>response["Error"]["Code"]\<close> is \<open>code\<close>; \<open>OtherError\<close> is any exception of the
  remote side that is not a \<^verbatim>\<open>ClientError\<close>; \<open>BareException\<close> is the program's own
  \<^verbatim>\<open>raise Exception()\<close>; the others are raised by the Python operations below.
\<close>

datatype pyerr =
    ClientError string
  | OtherError string
  | BareException
  | TypeError
  | KeyError
  | IndexError
  | ValueError
  | AttributeError

section \<open>Operations on Python values\<close>

text \<open>
  \<^verbatim>\<open>obj["key"]\<close> with a string key: a dictionary looks the key up and raises
  \<^verbatim>\<open>KeyError\<close> when it is absent; a list and a string take integer indices only, and the
  other values are not subscriptable: \<^verbatim>\<open>TypeError\<close>.
\<close>

fun subscript_str :: "pyval \<Rightarrow> string \<Rightarrow> pyerr + pyval" where
  "subscript_str (PDict d) k = (case map_of d k of Some v \<Rightarrow> Inr v | None \<Rightarrow> Inl KeyError)"
| "subscript_str _ k = Inl TypeError"

text \<open>\<^verbatim>\<open>xs[0]\<close> on a list.\<close>

fun subscript_0 :: "'a list \<Rightarrow> pyerr + 'a" where
  "subscript_0 [] = Inl IndexError"
| "subscript_0 (x # xs) = Inr x"

text \<open>
  \<^verbatim>\<open>obj.get("key")\<close>: on a dictionary the value, or \<^verbatim>\<open>None\<close> when the key is absent;
  the other values have no attribute \<^verbatim>\<open>get\<close>.
\<close>

fun dict_get :: "pyval \<Rightarrow> string \<Rightarrow> pyerr + pyval" where
  "dict_get (PDict d) k = Inr (case map_of d k of Some v \<Rightarrow> v | None \<Rightarrow> PNone)"
| "dict_get _ k = Inl AttributeError"

text \<open>The truth value of \<^verbatim>\<open>if obj:\<close>.\<close>

fun truthy :: "pyval \<Rightarrow> bool" where
  "truthy PNone = False"
| "truthy (PInt i) = (i \<noteq> 0)"
| "truthy (PStr s) = (s \<noteq> [])"
| "truthy (PDate t) = True"
| "truthy (PList xs) = (xs \<noteq> [])"
| "truthy (PDict d) = (d \<noteq> [])"

text \<open>
  Iteration (\<^verbatim>\<open>for x in obj\<close>, \<^verbatim>\<open>list(obj)\<close>, \<^verbatim>\<open>yield from obj\<close>, the argument of
  \<^verbatim>\<open>max\<close> and \<^verbatim>\<open>sorted\<close>): a list gives its elements, a dictionary its keys, a string
  its characters as one-character strings; the other values are not iterable.
\<close>

fun py_iter :: "pyval \<Rightarrow> pyerr + pyval list" where
  "py_iter (PList xs) = Inr xs"
| "py_iter (PDict d) = Inr (map (\<lambda>kv. PStr (fst kv)) d)"
| "py_iter (PStr s) = Inr (map (\<lambda>c. PStr [c]) s)"
| "py_iter _ = Inl TypeError"

text \<open>Sequencing of computations that may raise.\<close>

fun and_then :: "pyerr + 'a \<Rightarrow> ('a \<Rightarrow> pyerr + 'b) \<Rightarrow> pyerr + 'b" where
  "and_then (Inl e) f = Inl e"
| "and_then (Inr x) f = f x"

fun map_err :: "('a \<Rightarrow> pyerr + 'b) \<Rightarrow> 'a list \<Rightarrow> pyerr + 'b list" where
  "map_err f [] = Inr []"
| "map_err f (x # xs) =
     (case f x of
        Inl e \<Rightarrow> Inl e
      | Inr y \<Rightarrow> (case map_err f xs of Inl e \<Rightarrow> Inl e | Inr ys \<Rightarrow> Inr (y # ys)))"

text \<open>
  The order \<^verbatim>\<open><\<close> is modelled on the scalar values: integers, strings (by character
  code, lexicographically) and datetimes, each with its own kind only. Every other
  comparison raises \<^verbatim>\<open>TypeError\<close>.
\<close>

fun str_lt :: "string \<Rightarrow> string \<Rightarrow> bool" where
  "str_lt [] [] = False"
| "str_lt [] (y # ys) = True"
| "str_lt (x # xs) [] = False"
| "str_lt (x # xs) (y # ys) = (if x = y then str_lt xs ys else (of_char x :: nat) < of_char y)"

fun py_lt :: "pyval \<Rightarrow> pyval \<Rightarrow> pyerr + bool" where
  "py_lt (PInt a) (PInt b) = Inr (a < b)"
| "py_lt (PStr a) (PStr b) = Inr (str_lt a b)"
| "py_lt (PDate a) (PDate b) = Inr (a < b)"
| "py_lt _ _ = Inl TypeError"

text \<open>
  \<^verbatim>\<open>max(obj)\<close> with one argument iterates over it: \<^verbatim>\<open>TypeError\<close> when it is not
  iterable, \<^verbatim>\<open>ValueError\<close> when it is empty; otherwise the first of the greatest elements.
\<close>

fun max_from :: "pyval \<Rightarrow> pyval list \<Rightarrow> pyerr + pyval" where
  "max_from m [] = Inr m"
| "max_from m (x # xs) =
     (case py_lt m x of Inl e \<Rightarrow> Inl e | Inr b \<Rightarrow> max_from (if b then x else m) xs)"

definition py_max :: "pyval \<Rightarrow> pyerr + pyval" where
  "py_max v =
     (case py_iter v of
        Inl e \<Rightarrow> Inl e
      | Inr [] \<Rightarrow> Inl ValueError
      | Inr (x # xs) \<Rightarrow> max_from x xs)"

text \<open>
  \<^verbatim>\<open>sorted(obj, key=key, reverse=True)\<close>: the keys of all elements are computed first, in
  order; the sort is stable, so elements with equal keys keep their input order; it returns a
  new list. The elements are kept with their keys while they are sorted.
\<close>

fun insert_desc :: "pyval \<times> pyval \<Rightarrow> (pyval \<times> pyval) list \<Rightarrow> pyerr + (pyval \<times> pyval) list" where
  "insert_desc kx [] = Inr [kx]"
| "insert_desc kx (ky # rest) =
     (case py_lt (fst kx) (fst ky) of
        Inl e \<Rightarrow> Inl e
      | Inr b \<Rightarrow>
          if b then (case insert_desc kx rest of Inl e \<Rightarrow> Inl e | Inr rest' \<Rightarrow> Inr (ky # rest'))
          else Inr (kx # ky # rest))"

fun sort_desc :: "(pyval \<times> pyval) list \<Rightarrow> pyerr + (pyval \<times> pyval) list" where
  "sort_desc [] = Inr []"
| "sort_desc (kx # rest) = (case sort_desc rest of Inl e \<Rightarrow> Inl e | Inr s \<Rightarrow> insert_desc kx s)"

definition py_sorted_reverse :: "(pyval \<Rightarrow> pyerr + pyval) \<Rightarrow> pyval \<Rightarrow> pyerr + pyval list" where
  "py_sorted_reverse key v =
     and_then (py_iter v) (\<lambda>xs.
     and_then (map_err (\<lambda>x. and_then (key x) (\<lambda>k. Inr (k, x))) xs) (\<lambda>kxs.
     and_then (sort_desc kxs) (\<lambda>s. Inr (map snd s))))"

section \<open>The remote service, the clock and the trace\<close>

text \<open>
  A remote operation is called by name with keyword arguments; it answers with a response or
  raises, and may change the state \<open>'r\<close> of the remote side. The state of the world is the
  state of the remote side together with the trace of what the program has done so far: every
  invocation of a remote operation and every \<^verbatim>\<open>time.sleep\<close>.
\<close>

type_synonym kwargs = "(string \<times> pyval) list"

type_synonym 'r remote = "string \<Rightarrow> kwargs \<Rightarrow> 'r \<Rightarrow> (pyerr + pyval) \<times> 'r"

datatype event = Invoke string kwargs | Sleep nat

record 'r world =
  remote_state :: 'r
  events :: "event list"

text \<open>
  A callable \<^verbatim>\<open>fun\<close> of the source is a method of the boto client, possibly under
  \<^verbatim>\<open>functools.partial\<close>: the name of the operation and the keywords bound so far.
  \<^verbatim>\<open>functools.partial(fun, k=v)\<close> overrides the keyword \<open>k\<close> where it is bound already
  and adds it otherwise.
\<close>

type_synonym boto_call = "string \<times> kwargs"

fun bind_keyword :: "string \<Rightarrow> pyval \<Rightarrow> kwargs \<Rightarrow> kwargs" where
  "bind_keyword k v [] = [(k, v)]"
| "bind_keyword k v ((k', v') # kw) =
     (if k' = k then (k, v) # kw else (k', v') # bind_keyword k v kw)"

definition partial :: "boto_call \<Rightarrow> string \<Rightarrow> pyval \<Rightarrow> boto_call" where
  "partial f k v = (fst f, bind_keyword k v (snd f))"

definition sleep :: "nat \<Rightarrow> 'r world \<Rightarrow> 'r world" where
  "sleep n w = w\<lparr>events := events w @ [Sleep n]\<rparr>"

text \<open>\<^verbatim>\<open>fun()\<close>: the remote operation runs once and the invocation is recorded.\<close>

definition invoke :: "'r remote \<Rightarrow> boto_call \<Rightarrow> 'r world \<Rightarrow> (pyerr + pyval) \<times> 'r world" where
  "invoke remote f w =
     (case remote (fst f) (snd f) (remote_state w) of
        (res, r') \<Rightarrow> (res, \<lparr>remote_state = r', events = events w @ [Invoke (fst f) (snd f)]\<rparr>))"

section \<open>The retrying call\<close>

text \<open>
  \<^verbatim>\<open>
  def _retried_call(self, fun):
      while True:
          try:
              return fun()
          except ClientError as e:
              if e.response["Error"]["Code"] == "LimitExceededException":
                  time.sleep(5)
              else:
                  raise e
  \<close>
  The loop has no bound: against a remote side that always reports the rate limit it never
  returns, which is the value \<open>None\<close> here. An exception that is not a \<^verbatim>\<open>ClientError\<close>
  is not caught.
\<close>

partial_function (option) retried_call ::
  "'r remote \<Rightarrow> boto_call \<Rightarrow> 'r world \<Rightarrow> ((pyerr + pyval) \<times> 'r world) option"
where
  "retried_call remote f w =
     (case invoke remote f w of
        (Inr v, w') \<Rightarrow> Some (Inr v, w')
      | (Inl (ClientError code), w') \<Rightarrow>
          if code = ''LimitExceededException'' then retried_call remote f (sleep 5 w')
          else Some (Inl (ClientError code), w')
      | (Inl e, w') \<Rightarrow> Some (Inl e, w'))"

text \<open>
  \<^verbatim>\<open>
  def _request(self, fun):
      return self._retried_call(fun)
  \<close>
  The method has the one parameter \<^verbatim>\<open>fun\<close>. \<open>kw\<close> is the list of keyword arguments a
  call site passes besides it: Python binds the arguments before the body runs and raises
  \<^verbatim>\<open>TypeError\<close> (unexpected keyword argument) when there is any.
\<close>

definition request ::
  "'r remote \<Rightarrow> boto_call \<Rightarrow> kwargs \<Rightarrow> 'r world \<Rightarrow> ((pyerr + pyval) \<times> 'r world) option"
where
  "request remote f kw w =
     (if kw = [] then retried_call remote f w else Some (Inl TypeError, w))"

section \<open>Generators and pagination\<close>

text \<open>
  A generator function is modelled by its full consumption: the list of the values it yields
  and the way it ends, by exhaustion or by an exception raised after the values yielded so
  far. Nothing runs before the generator is iterated. A loop over a generator is modelled
  on the values of the finished generator. In this program the loops whose body could end or
  interleave with a generator of remote pages (the loop of \<^verbatim>\<open>list_inline_policies\<close>, the
  comprehensions of \<^verbatim>\<open>describe_role\<close>) only ever meet a generator that raises before its
  first remote call, so finishing the generator first changes no result and no trace.
\<close>

datatype gen_end = Exhausted | Raised pyerr

text \<open>
  \<^verbatim>\<open>
  def _paginated_request(self, fun):
      response = self._request(fun)
      yield response
      marker = response.get("Marker")
      if marker:
          yield from self._paginated_request(functools.partial(fun, Marker=marker))
  \<close>
  As for \<^verbatim>\<open>_request\<close>, \<open>kw\<close> is what a call site passes besides \<^verbatim>\<open>fun\<close>; the
  arguments are bound, and \<^verbatim>\<open>TypeError\<close> raised, where the generator function is called.
  A remote side that gives every page a cursor makes the sequence infinite: \<open>None\<close>.
\<close>

partial_function (option) paginated_request ::
  "'r remote \<Rightarrow> boto_call \<Rightarrow> kwargs \<Rightarrow> 'r world \<Rightarrow> ((pyval list \<times> gen_end) \<times> 'r world) option"
where
  "paginated_request remote f kw w =
     (if kw = [] then
        (case request remote f [] w of
           None \<Rightarrow> None
         | Some (Inl e, w1) \<Rightarrow> Some (([], Raised e), w1)
         | Some (Inr response, w1) \<Rightarrow>
             (case dict_get response ''Marker'' of
                Inl e \<Rightarrow> Some (([response], Raised e), w1)
              | Inr marker \<Rightarrow>
                  if truthy marker then
                    Option.bind (paginated_request remote (partial f ''Marker'' marker) [] w1)
                      (\<lambda>rest. Some ((response # fst (fst rest), snd (fst rest)), snd rest))
                  else Some (([response], Exhausted), w1)))
      else Some (([], Raised TypeError), w))"

text \<open>
  \<^verbatim>\<open>for response in responses: yield from response[key]\<close>, over the responses a generator
  has yielded and its end.
\<close>

fun yield_from_each :: "string \<Rightarrow> pyval list \<Rightarrow> gen_end \<Rightarrow> pyval list \<times> gen_end" where
  "yield_from_each k [] ending = ([], ending)"
| "yield_from_each k (response # rest) ending =
     (case and_then (subscript_str response k) py_iter of
        Inl e \<Rightarrow> ([], Raised e)
      | Inr items \<Rightarrow> (case yield_from_each k rest ending of (ys, en) \<Rightarrow> (items @ ys, en)))"

section \<open>The operations of AwsClient\<close>

text \<open>A call that returns a value or raises, in a world it may change, or does not return.\<close>

type_synonym ('a, 'r) io = "'r world \<Rightarrow> ((pyerr + 'a) \<times> 'r world) option"

definition io_return :: "'a \<Rightarrow> ('a, 'r) io" where
  "io_return x w = Some (Inr x, w)"

definition io_lift :: "pyerr + 'a \<Rightarrow> ('a, 'r) io" where
  "io_lift x w = Some (x, w)"

definition io_bind :: "('a, 'r) io \<Rightarrow> ('a \<Rightarrow> ('b, 'r) io) \<Rightarrow> ('b, 'r) io" where
  "io_bind m f w =
     (case m w of
        None \<Rightarrow> None
      | Some (Inl e, w') \<Rightarrow> Some (Inl e, w')
      | Some (Inr x, w') \<Rightarrow> f x w')"

fun map_io :: "('a \<Rightarrow> ('b, 'r) io) \<Rightarrow> 'a list \<Rightarrow> ('b list, 'r) io" where
  "map_io f [] = io_return []"
| "map_io f (x # xs) = io_bind (f x) (\<lambda>y. io_bind (map_io f xs) (\<lambda>ys. io_return (y # ys)))"

text \<open>
  \<^verbatim>\<open>
  def get_role(self, role_name):
      return self._request(self._boto_client.get_role, RoleName=role_name)["Role"]
  \<close>
\<close>

definition get_role :: "'r remote \<Rightarrow> pyval \<Rightarrow> (pyval, 'r) io" where
  "get_role remote role_name =
     io_bind (request remote (''get_role'', []) [(''RoleName'', role_name)]) (\<lambda>response.
     io_lift (subscript_str response ''Role''))"

text \<open>
  \<^verbatim>\<open>
  def list_inline_policies(self, role_name):
      for response in self._paginated_request(self._boto_client.list_role_policies, RoleName=role_name):
          yield from response["PolicyNames"]
  \<close>
\<close>

definition list_inline_policies ::
  "'r remote \<Rightarrow> pyval \<Rightarrow> 'r world \<Rightarrow> ((pyval list \<times> gen_end) \<times> 'r world) option"
where
  "list_inline_policies remote role_name w =
     (case paginated_request remote (''list_role_policies'', []) [(''RoleName'', role_name)] w of
        None \<Rightarrow> None
      | Some ((responses, ending), w') \<Rightarrow>
          Some (yield_from_each ''PolicyNames'' responses ending, w'))"

text \<open>
  \<^verbatim>\<open>
  def list_attached_policies(self, role_name):
      for response in self._request(self._boto_client.list_attached_role_policies, RoleName=role_name):
          yield from response["AttachedPolicies"]
  \<close>
  The loop iterates over the one response of \<^verbatim>\<open>_request\<close> itself.
\<close>

definition list_attached_policies ::
  "'r remote \<Rightarrow> pyval \<Rightarrow> 'r world \<Rightarrow> ((pyval list \<times> gen_end) \<times> 'r world) option"
where
  "list_attached_policies remote role_name w =
     (case request remote (''list_attached_role_policies'', []) [(''RoleName'', role_name)] w of
        None \<Rightarrow> None
      | Some (Inl e, w') \<Rightarrow> Some (([], Raised e), w')
      | Some (Inr response, w') \<Rightarrow>
          (case py_iter response of
             Inl e \<Rightarrow> Some (([], Raised e), w')
           | Inr responses \<Rightarrow>
               Some (yield_from_each ''AttachedPolicies'' responses Exhausted, w')))"

text \<open>
  \<^verbatim>\<open>
  def get_inline_policy_document(self, role_name, policy_name):
      return self._request(self._boto_client.get_role_policy, RoleName=role_name, PolicyName=policy_name)[
          "PolicyDocument"
      ]

  def list_policy_versions(self, policy_arn):
      return self._request(self._boto_client.list_policy_versions, PolicyArn=policy_arn)["Versions"]

  def get_policy_document(self, policy_arn, version_id):
      return self._request(self._boto_client.get_policy_version, PolicyArn=policy_arn, VersionId=version_id)[
          "PolicyVersion"
      ]["Document"]
  \<close>
\<close>

definition get_inline_policy_document :: "'r remote \<Rightarrow> pyval \<Rightarrow> pyval \<Rightarrow> (pyval, 'r) io" where
  "get_inline_policy_document remote role_name policy_name =
     io_bind (request remote (''get_role_policy'', [])
                [(''RoleName'', role_name), (''PolicyName'', policy_name)]) (\<lambda>response.
     io_lift (subscript_str response ''PolicyDocument''))"

definition list_policy_versions :: "'r remote \<Rightarrow> pyval \<Rightarrow> (pyval, 'r) io" where
  "list_policy_versions remote policy_arn =
     io_bind (request remote (''list_policy_versions'', []) [(''PolicyArn'', policy_arn)]) (\<lambda>response.
     io_lift (subscript_str response ''Versions''))"

definition get_policy_document :: "'r remote \<Rightarrow> pyval \<Rightarrow> pyval \<Rightarrow> (pyval, 'r) io" where
  "get_policy_document remote policy_arn version_id =
     io_bind (request remote (''get_policy_version'', [])
                [(''PolicyArn'', policy_arn), (''VersionId'', version_id)]) (\<lambda>response.
     io_lift (and_then (subscript_str response ''PolicyVersion'') (\<lambda>version.
              subscript_str version ''Document'')))"

section \<open>The access-analysis job\<close>

text \<open>
  \<^verbatim>\<open>
  def get_last_accessed_details(self, arn):
      response = self._request(
          functools.partial(
              self._boto_client.generate_service_last_accessed_details, Arn=arn, Granularity="ACTION_LEVEL"
          )
      )
      job_id = response["JobId"]
      while True:
          time.sleep(5)
          response = list(
              self._request(functools.partial(self._boto_client.get_service_last_accessed_details, JobId=job_id))
          )
          if response["JobStatus"] == "FAILED":
              raise Exception()
          if response["JobStatus"] == "COMPLETED":
              yield from self._paginated_request(
                  functools.partial(self._boto_client.get_service_last_accessed_details, JobId=job_id)
              )
  \<close>
  A generator function. \<open>poll_loop\<close> is the \<^verbatim>\<open>while True\<close> loop, with the values yielded
  so far; the loop has no \<^verbatim>\<open>break\<close> and no \<^verbatim>\<open>return\<close>, so it ends by an exception
  only. The response of a poll goes through \<^verbatim>\<open>list(...)\<close> before its status is read.
\<close>

partial_function (option) poll_loop ::
  "'r remote \<Rightarrow> pyval \<Rightarrow> pyval list \<Rightarrow> 'r world \<Rightarrow> ((pyval list \<times> gen_end) \<times> 'r world) option"
where
  "poll_loop remote job_id yielded w =
     (case request remote (''get_service_last_accessed_details'', [(''JobId'', job_id)]) []
             (sleep 5 w) of
        None \<Rightarrow> None
      | Some (Inl e, w1) \<Rightarrow> Some ((yielded, Raised e), w1)
      | Some (Inr polled, w1) \<Rightarrow>
          (case py_iter polled of
             Inl e \<Rightarrow> Some ((yielded, Raised e), w1)
           | Inr response \<Rightarrow>
               (case subscript_str (PList response) ''JobStatus'' of
                  Inl e \<Rightarrow> Some ((yielded, Raised e), w1)
                | Inr status \<Rightarrow>
                    if status = PStr ''FAILED'' then Some ((yielded, Raised BareException), w1)
                    else
                      (case subscript_str (PList response) ''JobStatus'' of
                         Inl e \<Rightarrow> Some ((yielded, Raised e), w1)
                       | Inr status' \<Rightarrow>
                           if status' = PStr ''COMPLETED'' then
                             (case paginated_request remote
                                     (''get_service_last_accessed_details'', [(''JobId'', job_id)]) [] w1 of
                                None \<Rightarrow> None
                              | Some ((pages, Raised e), w2) \<Rightarrow> Some ((yielded @ pages, Raised e), w2)
                              | Some ((pages, Exhausted), w2) \<Rightarrow>
                                  poll_loop remote job_id (yielded @ pages) w2)
                           else poll_loop remote job_id yielded w1))))"

definition get_last_accessed_details ::
  "'r remote \<Rightarrow> pyval \<Rightarrow> 'r world \<Rightarrow> ((pyval list \<times> gen_end) \<times> 'r world) option"
where
  "get_last_accessed_details remote arn w =
     (case request remote
             (''generate_service_last_accessed_details'',
              [(''Arn'', arn), (''Granularity'', PStr ''ACTION_LEVEL'')]) [] w of
        None \<Rightarrow> None
      | Some (Inl e, w1) \<Rightarrow> Some (([], Raised e), w1)
      | Some (Inr response, w1) \<Rightarrow>
          (case subscript_str response ''JobId'' of
             Inl e \<Rightarrow> Some (([], Raised e), w1)
           | Inr job_id \<Rightarrow> poll_loop remote job_id [] w1))"

section \<open>IamReader\<close>

text \<open>
  \<^verbatim>\<open>
  def _get_latest_version_id(self, policy_arn):
      versions = self._client.list_policy_versions(policy_arn)
      sorted_versions = sorted(versions, key=lambda it: max(it["CreateDate"]), reverse=True)
      return sorted_versions[0]["VersionId"]
  \<close>
  \<open>created_key\<close> is the \<^verbatim>\<open>lambda\<close>; \<open>select_latest\<close> is the second and the third line,
  which depend on the list of versions only.
\<close>

definition created_key :: "pyval \<Rightarrow> pyerr + pyval" where
  "created_key it = and_then (subscript_str it ''CreateDate'') py_max"

definition select_latest :: "pyval \<Rightarrow> pyerr + pyval" where
  "select_latest versions =
     and_then (py_sorted_reverse created_key versions) (\<lambda>sorted_versions.
     and_then (subscript_0 sorted_versions) (\<lambda>latest.
     subscript_str latest ''VersionId''))"

definition get_latest_version_id :: "'r remote \<Rightarrow> pyval \<Rightarrow> (pyval, 'r) io" where
  "get_latest_version_id remote policy_arn =
     io_bind (list_policy_versions remote policy_arn) (\<lambda>versions.
     io_lift (select_latest versions))"

text \<open>
  A list comprehension \<^verbatim>\<open>[body(x) for x in gen]\<close> over a generator: the body runs on the
  values the generator yields; an exception of the generator ends the comprehension after
  them.
\<close>

definition comprehension ::
  "('r world \<Rightarrow> ((pyval list \<times> gen_end) \<times> 'r world) option) \<Rightarrow> (pyval \<Rightarrow> ('b, 'r) io)
     \<Rightarrow> ('b list, 'r) io"
where
  "comprehension gen body w =
     (case gen w of
        None \<Rightarrow> None
      | Some ((items, ending), w1) \<Rightarrow>
          (case map_io body items w1 of
             None \<Rightarrow> None
           | Some (Inl e, w2) \<Rightarrow> Some (Inl e, w2)
           | Some (Inr ys, w2) \<Rightarrow>
               (case ending of
                  Exhausted \<Rightarrow> Some (Inr ys, w2)
                | Raised e \<Rightarrow> Some (Inl e, w2))))"

text \<open>
  The dictionary \<^verbatim>\<open>describe_role\<close> returns. Its last entry is the generator object that
  the call \<^verbatim>\<open>get_last_accessed_details(role["Arn"])\<close> creates: nothing of its body has run
  when \<^verbatim>\<open>describe_role\<close> returns.
\<close>

datatype generator = Get_last_accessed_details pyval

record role_profile =
  RoleArn :: pyval
  RoleName :: pyval
  InlinePolicyDocuments :: "pyval list"
  AttachedPolicyDocuments :: "pyval list"
  LastAccessedDetails :: generator

text \<open>
  \<^verbatim>\<open>
  def describe_role(self, role_name):
      role = self._client.get_role(role_name)
      inline_policy_names = self._client.list_inline_policies(role_name)
      inline_policy_documents = [self._client.get_inline_policy_document(role_name, pn) for pn in inline_policy_names]
      attached_policy_arns = [item["PolicyArn"] for item in self._client.list_attached_policies(role_name)]
      attached_policy_arns_and_latest_version_ids = [
          (arn, self._get_latest_version_id(arn)) for arn in attached_policy_arns
      ]
      attached_policy_documents = [
          self._client.get_policy_document(*args) for args in attached_policy_arns_and_latest_version_ids
      ]
      return {
          "RoleArn": role["Arn"],
          "RoleName": role_name,
          "InlinePolicyDocuments": inline_policy_documents,
          "AttachedPolicyDocuments": attached_policy_documents,
          "LastAccessedDetails": self._client.get_last_accessed_details(role["Arn"]),
      }
  \<close>
\<close>

definition describe_role :: "'r remote \<Rightarrow> pyval \<Rightarrow> (role_profile, 'r) io" where
  "describe_role remote role_name =
     io_bind (get_role remote role_name) (\<lambda>role.
     io_bind (comprehension (list_inline_policies remote role_name)
                (\<lambda>pn. get_inline_policy_document remote role_name pn)) (\<lambda>inline_policy_documents.
     io_bind (comprehension (list_attached_policies remote role_name)
                (\<lambda>item. io_lift (subscript_str item ''PolicyArn''))) (\<lambda>attached_policy_arns.
     io_bind (map_io (\<lambda>arn. io_bind (get_latest_version_id remote arn) (\<lambda>version_id.
                                io_return (arn, version_id)))
                attached_policy_arns) (\<lambda>arns_and_latest_version_ids.
     io_bind (map_io (\<lambda>args. get_policy_document remote (fst args) (snd args))
                arns_and_latest_version_ids) (\<lambda>attached_policy_documents.
     io_bind (io_lift (subscript_str role ''Arn'')) (\<lambda>role_arn.
     io_bind (io_lift (subscript_str role ''Arn'')) (\<lambda>role_arn'.
     io_return \<lparr>RoleArn = role_arn, RoleName = role_name,
                InlinePolicyDocuments = inline_policy_documents,
                AttachedPolicyDocuments = attached_policy_documents,
                LastAccessedDetails = Get_last_accessed_details role_arn'\<rparr>)))))))"

section \<open>Remote sides and traces for the properties\<close>

text \<open>The remote invocations of a trace, and its waits, in order.\<close>

fun invocations :: "event list \<Rightarrow> boto_call list" where
  "invocations [] = []"
| "invocations (Invoke name kw # es) = (name, kw) # invocations es"
| "invocations (Sleep n # es) = invocations es"

fun waits :: "event list \<Rightarrow> nat list" where
  "waits [] = []"
| "waits (Invoke name kw # es) = waits es"
| "waits (Sleep n # es) = n # waits es"

text \<open>
  \<open>throttled remote f k r\<close>: from the state \<open>r\<close>, the remote side answers \<open>k\<close> successive
  calls of \<open>f\<close> with the rate-limit error; the result is its state after them.
\<close>

fun throttled :: "'r remote \<Rightarrow> boto_call \<Rightarrow> nat \<Rightarrow> 'r \<Rightarrow> 'r option" where
  "throttled remote f 0 r = Some r"
| "throttled remote f (Suc k) r =
     (case remote (fst f) (snd f) r of
        (Inl (ClientError code), r') \<Rightarrow>
          if code = ''LimitExceededException'' then throttled remote f k r' else None
      | (_, r') \<Rightarrow> None)"



text \<open>
  A remote side with a queue of outcomes for each operation: a call takes the next outcome of
  its operation, whatever its keywords.
\<close>

fun queue_remote :: "(string \<times> (pyerr + pyval) list) list remote" where
  "queue_remote name kw [] = (Inl (OtherError ''no response''), [])"
| "queue_remote name kw ((name', q) # rest) =
     (if name' = name then
        (case q of
           [] \<Rightarrow> (Inl (OtherError ''no response''), (name', q) # rest)
         | x # q' \<Rightarrow> (x, (name', q') # rest))
      else (case queue_remote name kw rest of (x, rest') \<Rightarrow> (x, (name', q) # rest')))"

text \<open>
  The account of the scenario: the role \<^verbatim>\<open>Deploy\<close> with no inline policy and the attached
  policy \<^verbatim>\<open>p1\<close>, whose versions are \<^verbatim>\<open>v1\<close> (created at 1) and \<^verbatim>\<open>v2\<close> (created at 2);
  the access-analysis job is completed at its first poll and has one record. The state counts
  the polls.
\<close>

definition deploy_record :: pyval where
  "deploy_record = PDict [(''ServiceName'', PStr ''s3''), (''ServiceNamespace'', PStr ''s3'')]"

fun deploy_remote :: "nat remote" where
  "deploy_remote name kw n =
     (if name = ''get_role'' then
        (Inr (PDict [(''Role'', PDict [(''RoleName'', PStr ''Deploy''), (''Arn'', PStr ''arn:Deploy'')])]), n)
      else if name = ''list_role_policies'' then
        (Inr (PDict [(''PolicyNames'', PList [])]), n)
      else if name = ''list_attached_role_policies'' then
        (Inr (PDict [(''AttachedPolicies'',
                      PList [PDict [(''PolicyName'', PStr ''p1''), (''PolicyArn'', PStr ''p1'')]])]), n)
      else if name = ''list_policy_versions'' then
        (Inr (PDict [(''Versions'',
                      PList [PDict [(''VersionId'', PStr ''v1''), (''CreateDate'', PDate 1)],
                             PDict [(''VersionId'', PStr ''v2''), (''CreateDate'', PDate 2)]])]), n)
      else if name = ''get_policy_version'' then
        (case map_of kw ''VersionId'' of
           Some version_id \<Rightarrow>
             if version_id = PStr ''v1'' \<or> version_id = PStr ''v2'' then
               (Inr (PDict [(''PolicyVersion'',
                             PDict [(''VersionId'', version_id),
                                    (''Document'', PDict [(''Of'', version_id)])])]), n)
             else (Inl (ClientError ''NoSuchEntity''), n)
         | None \<Rightarrow> (Inl (ClientError ''ValidationError''), n))
      else if name = ''generate_service_last_accessed_details'' then
        (Inr (PDict [(''JobId'', PStr ''j1'')]), n)
      else if name = ''get_service_last_accessed_details'' then
        (Inr (PDict [(''JobStatus'', PStr ''COMPLETED''),
                     (''ServicesLastAccessed'', PList [deploy_record])]), Suc n)
      else (Inl (ClientError ''InvalidAction''), n))"

section \<open>Requests\<close>


lemma request_keywords: "kw \<noteq> [] \<Longrightarrow> request remote f kw w = Some (Inl TypeError, w)"
  by (simp add: request_def)

lemma retried_call_success:
  "remote (fst f) (snd f) (remote_state w) = (Inr v, r') \<Longrightarrow>
   retried_call remote f w =
     Some (Inr v, \<lparr>remote_state = r', events = events w @ [Invoke (fst f) (snd f)]\<rparr>)"
  by (subst retried_call.simps) (simp add: invoke_def)

lemma retried_call_throttled:
  "remote (fst f) (snd f) (remote_state w) = (Inl (ClientError ''LimitExceededException''), r') \<Longrightarrow>
   retried_call remote f w =
     retried_call remote f
       \<lparr>remote_state = r', events = events w @ [Invoke (fst f) (snd f), Sleep 5]\<rparr>"
  by (subst retried_call.simps) (simp add: invoke_def sleep_def)

lemma retried_call_after_throttles:
  "throttled remote f K (remote_state w) = Some r \<Longrightarrow>
   retried_call remote f w =
     retried_call remote f
       \<lparr>remote_state = r,
        events = events w @ concat (replicate K [Invoke (fst f) (snd f), Sleep 5])\<rparr>"
proof (induction K arbitrary: w)
  case 0
  then show ?case by (cases w) simp
next
  case (Suc K)
  from Suc.prems obtain r1 where
    first: "remote (fst f) (snd f) (remote_state w) = (Inl (ClientError ''LimitExceededException''), r1)"
    and rest: "throttled remote f K r1 = Some r"
    by (auto split: prod.splits sum.splits pyerr.splits if_splits)
  let ?w1 = "\<lparr>remote_state = r1, events = events w @ [Invoke (fst f) (snd f), Sleep 5]\<rparr>"
  have "retried_call remote f w = retried_call remote f ?w1"
    using first by (rule retried_call_throttled)
  also have "\<dots> = retried_call remote f
       \<lparr>remote_state = r, events = events ?w1 @ concat (replicate K [Invoke (fst f) (snd f), Sleep 5])\<rparr>"
    by (rule Suc.IH) (simp add: rest)
  finally show ?case by simp
qed

lemma invocations_append: "invocations (xs @ ys) = invocations xs @ invocations ys"
  by (induction xs rule: invocations.induct) simp_all

lemma waits_append: "waits (xs @ ys) = waits xs @ waits ys"
  by (induction xs rule: waits.induct) simp_all

lemma invocations_retries:
  "invocations (concat (replicate K [Invoke name kw, Sleep n])) = replicate K (name, kw)"
  by (induction K) simp_all

lemma waits_retries:
  "waits (concat (replicate K [Invoke name kw, Sleep n])) = replicate K n"
  by (induction K) simp_all

text \<open>
  C3. If the remote side answers \<open>K\<close> successive calls of an operation with the rate-limit
  error and the next call with a response, \<^verbatim>\<open>_retried_call\<close> returns that response and no
  error; its trace is \<open>K\<close> times an invocation followed by a wait of 5, and then the
  successful invocation: \<open>K + 1\<close> invocations of the same call and \<open>K\<close> waits of 5, one
  before each new attempt.
\<close>

theorem retried_call_transparent:
  assumes "throttled remote f K (remote_state w) = Some r"
    and "remote (fst f) (snd f) r = (Inr v, r')"
  shows "retried_call remote f w =
           Some (Inr v,
                 \<lparr>remote_state = r',
                  events = events w @ concat (replicate K [Invoke (fst f) (snd f), Sleep 5])
                             @ [Invoke (fst f) (snd f)]\<rparr>)
         \<and> invocations (concat (replicate K [Invoke (fst f) (snd f), Sleep 5])
                           @ [Invoke (fst f) (snd f)]) = replicate (Suc K) f
         \<and> waits (concat (replicate K [Invoke (fst f) (snd f), Sleep 5])
                     @ [Invoke (fst f) (snd f)]) = replicate K 5"
proof -
  let ?w = "\<lparr>remote_state = r,
        events = events w @ concat (replicate K [Invoke (fst f) (snd f), Sleep 5])\<rparr>"
  have "retried_call remote f w = retried_call remote f ?w"
    using assms(1) by (rule retried_call_after_throttles)
  also have "\<dots> = Some (Inr v, \<lparr>remote_state = r', events = events ?w @ [Invoke (fst f) (snd f)]\<rparr>)"
    by (rule retried_call_success) (simp add: assms(2))
  finally have "retried_call remote f w =
           Some (Inr v,
                 \<lparr>remote_state = r',
                  events = events w @ concat (replicate K [Invoke (fst f) (snd f), Sleep 5])
                             @ [Invoke (fst f) (snd f)]\<rparr>)"
    by simp
  moreover have "invocations (concat (replicate K [Invoke (fst f) (snd f), Sleep 5])
                           @ [Invoke (fst f) (snd f)]) = replicate (Suc K) f"
    by (simp add: invocations_append invocations_retries replicate_append_same)
  moreover have "waits (concat (replicate K [Invoke (fst f) (snd f), Sleep 5])
                     @ [Invoke (fst f) (snd f)]) = replicate K 5"
    by (simp add: waits_append waits_retries)
  ultimately show ?thesis by blast
qed

text \<open>Two rate-limit errors, then the list of roles.\<close>

theorem retried_call_transparent_witness:
  "throttled queue_remote (''list_roles'', []) (Suc (Suc 0))
     [(''list_roles'',
       [Inl (ClientError ''LimitExceededException''), Inl (ClientError ''LimitExceededException''),
        Inr (PDict [(''Roles'', PList [])])])]
     = Some [(''list_roles'', [Inr (PDict [(''Roles'', PList [])])])]
   \<and> queue_remote ''list_roles'' [] [(''list_roles'', [Inr (PDict [(''Roles'', PList [])])])]
     = (Inr (PDict [(''Roles'', PList [])]), [(''list_roles'', [])])
   \<and> retried_call queue_remote (''list_roles'', [])
       \<lparr>remote_state =
          [(''list_roles'',
            [Inl (ClientError ''LimitExceededException''), Inl (ClientError ''LimitExceededException''),
             Inr (PDict [(''Roles'', PList [])])])],
        events = []\<rparr>
     = Some (Inr (PDict [(''Roles'', PList [])]),
             \<lparr>remote_state = [(''list_roles'', [])],
              events = [Invoke ''list_roles'' [], Sleep 5, Invoke ''list_roles'' [], Sleep 5,
                        Invoke ''list_roles'' []]\<rparr>)"
  using retried_call_transparent [of queue_remote "(''list_roles'', [])" "Suc (Suc 0)"
     "\<lparr>remote_state = [(''list_roles'',
         [Inl (ClientError ''LimitExceededException''), Inl (ClientError ''LimitExceededException''),
          Inr (PDict [(''Roles'', PList [])])])], events = []\<rparr>"
     "[(''list_roles'', [Inr (PDict [(''Roles'', PList [])])])]"
     "PDict [(''Roles'', PList [])]" "[(''list_roles'', [])]"]
  by simp

text \<open>
  C4. If the first call of an operation raises an error that is not the rate-limit error,
  \<^verbatim>\<open>_retried_call\<close> raises that error; its trace is the one invocation, with no wait.
\<close>

theorem retried_call_propagates:
  assumes "remote (fst f) (snd f) (remote_state w) = (Inl e, r')"
    and "e \<noteq> ClientError ''LimitExceededException''"
  shows "retried_call remote f w =
           Some (Inl e, \<lparr>remote_state = r', events = events w @ [Invoke (fst f) (snd f)]\<rparr>)
         \<and> invocations [Invoke (fst f) (snd f)] = [f] \<and> waits [Invoke (fst f) (snd f)] = []"
  using assms by (subst retried_call.simps) (auto simp add: invoke_def split: pyerr.splits)

text \<open>An access error at the first call; the response queued behind it is never asked for.\<close>

theorem retried_call_propagates_witness:
  "queue_remote ''get_role'' [(''RoleName'', PStr ''Deploy'')]
     [(''get_role'', [Inl (ClientError ''AccessDenied''), Inr (PDict [])])]
     = (Inl (ClientError ''AccessDenied''), [(''get_role'', [Inr (PDict [])])])
   \<and> ClientError ''AccessDenied'' \<noteq> ClientError ''LimitExceededException''
   \<and> retried_call queue_remote (''get_role'', [(''RoleName'', PStr ''Deploy'')])
       \<lparr>remote_state = [(''get_role'', [Inl (ClientError ''AccessDenied''), Inr (PDict [])])],
        events = []\<rparr>
     = Some (Inl (ClientError ''AccessDenied''),
             \<lparr>remote_state = [(''get_role'', [Inr (PDict [])])],
              events = [Invoke ''get_role'' [(''RoleName'', PStr ''Deploy'')]]\<rparr>)"
  using retried_call_propagates [of queue_remote "(''get_role'', [(''RoleName'', PStr ''Deploy'')])"
     "\<lparr>remote_state = [(''get_role'', [Inl (ClientError ''AccessDenied''), Inr (PDict [])])], events = []\<rparr>"
     "ClientError ''AccessDenied''" "[(''get_role'', [Inr (PDict [])])]"]
  by simp

section \<open>Pagination\<close>





section \<open>The access-analysis job\<close>

text \<open>
  Whatever a poll returns, the loop raises \<^verbatim>\<open>TypeError\<close> right after it: the returned value
  is not iterable, or \<^verbatim>\<open>list(...)\<close> makes a list of it, and a list has no string index.
  The status of the job is never read.
\<close>

lemma poll_loop_raises:
  assumes "request remote (''get_service_last_accessed_details'', [(''JobId'', job_id)]) []
             (sleep 5 w) = Some (Inr polled, w1)"
  shows "poll_loop remote job_id yielded w = Some ((yielded, Raised TypeError), w1)"
proof (cases "py_iter polled")
  case (Inl e)
  then have "e = TypeError" by (cases polled) simp_all
  with Inl assms show ?thesis by (subst poll_loop.simps) simp
next
  case (Inr response)
  with assms show ?thesis by (subst poll_loop.simps) simp
qed

text \<open>
  C1. The job \<^verbatim>\<open>j1\<close> whose polls answer RUNNING, RUNNING, COMPLETED, and whose result set
  is one page with one record: \<^verbatim>\<open>get_last_accessed_details\<close> submits the job, waits 5,
  polls once and raises \<^verbatim>\<open>TypeError\<close>. It yields nothing; the second and the third poll
  and the fetch of the result set do not take place.
\<close>

theorem get_last_accessed_details_completed_job:
  "get_last_accessed_details queue_remote (PStr ''arn:Deploy'')
     \<lparr>remote_state =
        [(''generate_service_last_accessed_details'', [Inr (PDict [(''JobId'', PStr ''j1'')])]),
         (''get_service_last_accessed_details'',
          [Inr (PDict [(''JobStatus'', PStr ''RUNNING'')]),
           Inr (PDict [(''JobStatus'', PStr ''RUNNING'')]),
           Inr (PDict [(''JobStatus'', PStr ''COMPLETED''),
                       (''ServicesLastAccessed'', PList [deploy_record])]),
           Inr (PDict [(''JobStatus'', PStr ''COMPLETED''),
                       (''ServicesLastAccessed'', PList [deploy_record])])])],
      events = []\<rparr>
   = Some (([], Raised TypeError),
           \<lparr>remote_state =
              [(''generate_service_last_accessed_details'', []),
               (''get_service_last_accessed_details'',
                [Inr (PDict [(''JobStatus'', PStr ''RUNNING'')]),
                 Inr (PDict [(''JobStatus'', PStr ''COMPLETED''),
                             (''ServicesLastAccessed'', PList [deploy_record])]),
                 Inr (PDict [(''JobStatus'', PStr ''COMPLETED''),
                             (''ServicesLastAccessed'', PList [deploy_record])])])],
            events = [Invoke ''generate_service_last_accessed_details''
                        [(''Arn'', PStr ''arn:Deploy''), (''Granularity'', PStr ''ACTION_LEVEL'')],
                      Sleep 5,
                      Invoke ''get_service_last_accessed_details'' [(''JobId'', PStr ''j1'')]]\<rparr>)"
  by (simp add: get_last_accessed_details_def request_def retried_call.simps invoke_def sleep_def
        poll_loop.simps)

text \<open>
  C6. The job \<^verbatim>\<open>j1\<close> whose polls answer RUNNING, FAILED: \<^verbatim>\<open>get_last_accessed_details\<close>
  submits the job, waits 5, polls once and raises \<^verbatim>\<open>TypeError\<close>, which is not the
  exception of a failed job (\<open>BareException\<close>); the answer FAILED is never asked for. It
  yields nothing and fetches no result set.
\<close>

theorem get_last_accessed_details_failed_job:
  "get_last_accessed_details queue_remote (PStr ''arn:Deploy'')
     \<lparr>remote_state =
        [(''generate_service_last_accessed_details'', [Inr (PDict [(''JobId'', PStr ''j1'')])]),
         (''get_service_last_accessed_details'',
          [Inr (PDict [(''JobStatus'', PStr ''RUNNING'')]),
           Inr (PDict [(''JobStatus'', PStr ''FAILED'')])])],
      events = []\<rparr>
   = Some (([], Raised TypeError),
           \<lparr>remote_state =
              [(''generate_service_last_accessed_details'', []),
               (''get_service_last_accessed_details'',
                [Inr (PDict [(''JobStatus'', PStr ''FAILED'')])])],
            events = [Invoke ''generate_service_last_accessed_details''
                        [(''Arn'', PStr ''arn:Deploy''), (''Granularity'', PStr ''ACTION_LEVEL'')],
                      Sleep 5,
                      Invoke ''get_service_last_accessed_details'' [(''JobId'', PStr ''j1'')]]\<rparr>)
   \<and> TypeError \<noteq> BareException"
  by (simp add: get_last_accessed_details_def request_def retried_call.simps invoke_def sleep_def
        poll_loop.simps)

text \<open>The same when the first poll already answers FAILED.\<close>

lemma get_last_accessed_details_failed_at_first_poll:
  "get_last_accessed_details queue_remote (PStr ''arn:Deploy'')
     \<lparr>remote_state =
        [(''generate_service_last_accessed_details'', [Inr (PDict [(''JobId'', PStr ''j1'')])]),
         (''get_service_last_accessed_details'', [Inr (PDict [(''JobStatus'', PStr ''FAILED'')])])],
      events = []\<rparr>
   = Some (([], Raised TypeError),
           \<lparr>remote_state =
              [(''generate_service_last_accessed_details'', []),
               (''get_service_last_accessed_details'', [])],
            events = [Invoke ''generate_service_last_accessed_details''
                        [(''Arn'', PStr ''arn:Deploy''), (''Granularity'', PStr ''ACTION_LEVEL'')],
                      Sleep 5,
                      Invoke ''get_service_last_accessed_details'' [(''JobId'', PStr ''j1'')]]\<rparr>)"
  by (simp add: get_last_accessed_details_def request_def retried_call.simps invoke_def sleep_def
        poll_loop.simps)

section \<open>The operations that pass keyword arguments to the request\<close>

text \<open>
  \<^verbatim>\<open>get_role\<close>, \<^verbatim>\<open>list_inline_policies\<close>, \<^verbatim>\<open>list_attached_policies\<close>,
  \<^verbatim>\<open>get_inline_policy_document\<close>, \<^verbatim>\<open>list_policy_versions\<close> and
  \<^verbatim>\<open>get_policy_document\<close> pass the arguments of the remote operation as keywords to
  \<^verbatim>\<open>_request\<close> or \<^verbatim>\<open>_paginated_request\<close>, which take none. Each of them raises
  \<^verbatim>\<open>TypeError\<close> before any remote call, whatever the remote side is, and so do
  \<^verbatim>\<open>_get_latest_version_id\<close> and \<^verbatim>\<open>describe_role\<close>, which start with one of them.
\<close>

lemma get_role_raises: "get_role remote role_name w = Some (Inl TypeError, w)"
  by (simp add: get_role_def io_bind_def request_def)

lemma list_inline_policies_raises:
  "list_inline_policies remote role_name w = Some (([], Raised TypeError), w)"
  by (subst list_inline_policies_def, subst paginated_request.simps) simp

lemma list_attached_policies_raises:
  "list_attached_policies remote role_name w = Some (([], Raised TypeError), w)"
  by (simp add: list_attached_policies_def request_def)

lemma get_inline_policy_document_raises:
  "get_inline_policy_document remote role_name policy_name w = Some (Inl TypeError, w)"
  by (simp add: get_inline_policy_document_def io_bind_def request_def)

lemma list_policy_versions_raises:
  "list_policy_versions remote policy_arn w = Some (Inl TypeError, w)"
  by (simp add: list_policy_versions_def io_bind_def request_def)

lemma get_policy_document_raises:
  "get_policy_document remote policy_arn version_id w = Some (Inl TypeError, w)"
  by (simp add: get_policy_document_def io_bind_def request_def)

lemma get_latest_version_id_raises:
  "get_latest_version_id remote policy_arn w = Some (Inl TypeError, w)"
  by (simp add: get_latest_version_id_def io_bind_def list_policy_versions_raises)

lemma describe_role_raises: "describe_role remote role_name w = Some (Inl TypeError, w)"
  by (simp add: describe_role_def io_bind_def get_role_raises)

text \<open>
  The selection of the latest version, on the list of versions alone: the empty list has no
  first element; a \<^verbatim>\<open>CreateDate\<close> that is a datetime is not iterable, so the key of the
  sort raises; for dates written as strings the key is the greatest character of the string,
  and the version selected need not be the latest.
\<close>

lemma select_latest_empty: "select_latest (PList []) = Inl IndexError"
  by (simp add: select_latest_def py_sorted_reverse_def)

lemma created_key_datetime:
  "map_of d ''CreateDate'' = Some (PDate t) \<Longrightarrow> created_key (PDict d) = Inl TypeError"
  by (simp add: created_key_def py_max_def)

lemma select_latest_datetime:
  "map_of d ''CreateDate'' = Some (PDate t) \<Longrightarrow>
   select_latest (PList (PDict d # versions)) = Inl TypeError"
  by (simp add: select_latest_def py_sorted_reverse_def created_key_datetime)

lemma select_latest_date_strings:
  "select_latest
     (PList [PDict [(''VersionId'', PStr ''v1''), (''CreateDate'', PStr ''2021-01-09'')],
             PDict [(''VersionId'', PStr ''v2''), (''CreateDate'', PStr ''2022-01-01'')]])
   = Inr (PStr ''v1'')"
  by (simp add: select_latest_def py_sorted_reverse_def created_key_def py_max_def)

text \<open>
  C5. The policy \<^verbatim>\<open>p1\<close> with the versions \<^verbatim>\<open>v2\<close>, \<^verbatim>\<open>v3\<close>, \<^verbatim>\<open>v1\<close> created at 2, 3
  and 1: \<^verbatim>\<open>_get_latest_version_id\<close> raises \<^verbatim>\<open>TypeError\<close> and calls no remote
  operation, instead of returning \<^verbatim>\<open>v3\<close>; and the selection raises \<^verbatim>\<open>TypeError\<close> on
  this list of versions.
\<close>

theorem get_latest_version_id_three_versions:
  "get_latest_version_id queue_remote (PStr ''p1'')
     \<lparr>remote_state =
        [(''list_policy_versions'',
          [Inr (PDict [(''Versions'',
                        PList [PDict [(''VersionId'', PStr ''v2''), (''CreateDate'', PDate 2)],
                               PDict [(''VersionId'', PStr ''v3''), (''CreateDate'', PDate 3)],
                               PDict [(''VersionId'', PStr ''v1''), (''CreateDate'', PDate 1)]])])])],
      events = []\<rparr>
   = Some (Inl TypeError,
           \<lparr>remote_state =
              [(''list_policy_versions'',
                [Inr (PDict [(''Versions'',
                              PList [PDict [(''VersionId'', PStr ''v2''), (''CreateDate'', PDate 2)],
                                     PDict [(''VersionId'', PStr ''v3''), (''CreateDate'', PDate 3)],
                                     PDict [(''VersionId'', PStr ''v1''), (''CreateDate'', PDate 1)]])])])],
            events = []\<rparr>)
   \<and> select_latest
       (PList [PDict [(''VersionId'', PStr ''v2''), (''CreateDate'', PDate 2)],
               PDict [(''VersionId'', PStr ''v3''), (''CreateDate'', PDate 3)],
               PDict [(''VersionId'', PStr ''v1''), (''CreateDate'', PDate 1)]])
     = Inl TypeError"
  by (simp add: get_latest_version_id_raises select_latest_datetime)

text \<open>
  C10. The policy \<^verbatim>\<open>p1\<close> with an empty list of versions: \<^verbatim>\<open>_get_latest_version_id\<close>
  raises \<^verbatim>\<open>TypeError\<close> and calls no remote operation; it does not reach the index into
  the sorted list, which alone would raise \<^verbatim>\<open>IndexError\<close> on the empty list.
\<close>

theorem get_latest_version_id_no_version:
  "get_latest_version_id queue_remote (PStr ''p1'')
     \<lparr>remote_state = [(''list_policy_versions'', [Inr (PDict [(''Versions'', PList [])])])],
      events = []\<rparr>
   = Some (Inl TypeError,
           \<lparr>remote_state = [(''list_policy_versions'', [Inr (PDict [(''Versions'', PList [])])])],
            events = []\<rparr>)
   \<and> TypeError \<noteq> IndexError
   \<and> select_latest (PList []) = Inl IndexError"
  by (simp add: get_latest_version_id_raises select_latest_empty)

text \<open>
  C9. A remote side with two pages of attached policies and two pages of policy versions,
  the first page of each with a cursor: \<^verbatim>\<open>list_attached_policies\<close> and
  \<^verbatim>\<open>list_policy_versions\<close> raise \<^verbatim>\<open>TypeError\<close>, yield no item of any page and call no
  remote operation.
\<close>

theorem list_operations_two_pages:
  "list_attached_policies queue_remote (PStr ''Deploy'')
     \<lparr>remote_state =
        [(''list_attached_role_policies'',
          [Inr (PDict [(''AttachedPolicies'', PList [PDict [(''PolicyArn'', PStr ''p1'')]]),
                       (''Marker'', PStr ''c1'')]),
           Inr (PDict [(''AttachedPolicies'', PList [PDict [(''PolicyArn'', PStr ''p2'')]])])])],
      events = []\<rparr>
   = Some (([], Raised TypeError),
           \<lparr>remote_state =
              [(''list_attached_role_policies'',
                [Inr (PDict [(''AttachedPolicies'', PList [PDict [(''PolicyArn'', PStr ''p1'')]]),
                             (''Marker'', PStr ''c1'')]),
                 Inr (PDict [(''AttachedPolicies'', PList [PDict [(''PolicyArn'', PStr ''p2'')]])])])],
            events = []\<rparr>)
   \<and> list_policy_versions queue_remote (PStr ''p1'')
       \<lparr>remote_state =
          [(''list_policy_versions'',
            [Inr (PDict [(''Versions'', PList [PDict [(''VersionId'', PStr ''v1'')]]),
                         (''Marker'', PStr ''c1'')]),
             Inr (PDict [(''Versions'', PList [PDict [(''VersionId'', PStr ''v2'')]])])])],
        events = []\<rparr>
     = Some (Inl TypeError,
             \<lparr>remote_state =
                [(''list_policy_versions'',
                  [Inr (PDict [(''Versions'', PList [PDict [(''VersionId'', PStr ''v1'')]]),
                               (''Marker'', PStr ''c1'')]),
                   Inr (PDict [(''Versions'', PList [PDict [(''VersionId'', PStr ''v2'')]])])])],
              events = []\<rparr>)"
  by (simp add: list_attached_policies_raises list_policy_versions_raises)


text \<open>
  C8. The scenario of the role \<^verbatim>\<open>Deploy\<close>: \<^verbatim>\<open>describe_role\<close> raises \<^verbatim>\<open>TypeError\<close>
  and calls no remote operation; it returns no profile.
\<close>

theorem describe_role_deploy:
  "describe_role deploy_remote (PStr ''Deploy'') \<lparr>remote_state = 0, events = []\<rparr>
   = Some (Inl TypeError, \<lparr>remote_state = 0, events = []\<rparr>)"
  by (simp add: describe_role_raises)

end
